theory Spec2Isabelle
  imports Complex_Main
begin

section \<open>Shared data of the opening trainer's frontend\<close>

text \<open>
  The frontend keeps one global object \<^verbatim>\<open>appState\<close> and talks to the server with
  \<^verbatim>\<open>fetch\<close>. An \<^verbatim>\<open>await fetch(...)\<close> followed by \<^verbatim>\<open>response.json()\<close> either
  yields the parsed body or throws (network error, body that is not JSON, and a body
  that is not an object throws as soon as a field is read); the
  outcome is an input of the model, so every theorem holds for every answer the server
  can give. Node ids and session ids are opaque strings; \<^verbatim>\<open>null\<close> and a missing
  field are \<open>None\<close>. JavaScript numbers are modelled exactly: counts as \<open>nat\<close>,
  percentages as \<open>rat\<close>.
\<close>

type_synonym node_id = string
type_synonym session_id = string

datatype 'a fetch_result = FetchThrows | Response 'a

text \<open>How an async function of the source completes: its promise resolves with a
  value or rejects with the exception that escaped it.\<close>

datatype 'a completion = Returned 'a | Thrown

text \<open>One entry of \<^verbatim>\<open>appState.availableMoves\<close> (a move object sent by the server). The
  last two fields are the \<^verbatim>\<open>opacity\<close> and \<^verbatim>\<open>thickness\<close> that, by the source's comment
  \<^verbatim>\<open>// Frontend uses move.color, move.opacity, move.thickness from API\<close>, the server
  sends with a move.\<close>

record move =
  uci :: "string option"
  san :: "string option"
  color :: "string option"
  games :: "nat option"
  wins :: "nat option"
  draws :: "nat option"
  losses :: "nat option"
  win_rate :: "rat option"
  api_opacity :: "rat option"
  api_thickness :: "nat option"

text \<open>The fields of \<^verbatim>\<open>appState\<close> (\<^verbatim>\<open>let appState = { ... }\<close>) that the modelled
  functions read or write.\<close>

record app_state =
  currentPlayer :: "string option"
  currentColor :: string
  currentPosition :: string
  availableMoves :: "move list"
  isNavigating :: bool
  currentNodeId :: "node_id option"
  currentNodeParentId :: "node_id option"
  currentArrows :: "move list"
  trainingMode :: bool
  isOpponentTurn :: bool
  trainingHistoryLength :: nat
  trainingSessionId :: "session_id option"
  studiedNodes :: "node_id set"
  directlyLearnedNodes :: "node_id set"
  mistakeCount :: nat
  nodeGames :: "nat option"
  nodeWinRate :: "rat option"

text \<open>What a function makes visible outside \<^verbatim>\<open>appState\<close>, in the order it happens.\<close>

datatype effect =
    StatsDisplay nat nat      \<comment> \<open>\<^verbatim>\<open>updateLearningStatsDisplay\<close>: learned, mistakes\<close>
  | RenderBoard string string \<comment> \<open>\<^verbatim>\<open>renderChessBoard(fen, color)\<close>\<close>
  | MoveError string string   \<comment> \<open>\<^verbatim>\<open>showMoveError\<close> for the squares from, to\<close>
  | Alert                     \<comment> \<open>\<^verbatim>\<open>alert(...)\<close>\<close>
  | MovesListShown "move list" \<comment> \<open>\<^verbatim>\<open>updateMovesList(moves)\<close>\<close>
  | ArrowsRequested "move list" \<comment> \<open>\<^verbatim>\<open>showAvailableMovesArrows(moves)\<close>\<close>
  | Fetch string              \<comment> \<open>\<^verbatim>\<open>fetch(url, ...)\<close>: a navigation request is sent\<close>

section \<open>Marking a node as studied\<close>

text \<open>
  \<^verbatim>\<open>
  async function markNodeAsStudied(nodeId, sessionId) {
    try {
      const response = await fetch('/api/training/mark_studied', { ... });
      const data = await response.json();
      if (data.success) { appState.studiedNodes.add(nodeId); return true; }
      else { return false; }
    } catch (error) { return false; }
  }
  \<close>
  The body of the answer is read for its \<^verbatim>\<open>success\<close> field only.
\<close>

record studied_response =
  studied_success :: bool

definition markNodeAsStudied ::
  "node_id \<Rightarrow> session_id option \<Rightarrow> studied_response fetch_result \<Rightarrow> app_state
    \<Rightarrow> bool completion \<times> app_state" where
  "markNodeAsStudied nodeId sessionId answer app =
     (case answer of
        FetchThrows \<Rightarrow> (Returned False, app)
      | Response data \<Rightarrow>
          if studied_success data
          then (Returned True, app\<lparr>studiedNodes := insert nodeId (studiedNodes app)\<rparr>)
          else (Returned False, app))"

text \<open>The initial value of \<^verbatim>\<open>appState\<close>, as the source's literal gives it.\<close>

definition DEFAULT_FEN :: string where
  "DEFAULT_FEN = ''rnbqkbnr/pppppppp/8/8/8/8/PPPPPPPP/RNBQKBNR w KQkq - 0 1''"

definition initialAppState :: app_state where
  "initialAppState =
     \<lparr>currentPlayer = None, currentColor = ''white'', currentPosition = DEFAULT_FEN,
      availableMoves = [], isNavigating = False, currentNodeId = None,
      currentNodeParentId = None, currentArrows = [], trainingMode = False,
      isOpponentTurn = False, trainingHistoryLength = 0, trainingSessionId = None,
      studiedNodes = {}, directlyLearnedNodes = {}, mistakeCount = 0,
      nodeGames = None, nodeWinRate = None\<rparr>"

section \<open>Strings and truthiness\<close>

text \<open>
  Strings are sequences of 8-bit code units, which is exact for the ASCII text the
  functions below compare against (squares, UCI moves, hex colours, player names).
  A string is truthy unless it is missing or empty.
\<close>

definition truthy :: "string option \<Rightarrow> bool" where
  "truthy x = (case x of None \<Rightarrow> False | Some s \<Rightarrow> s \<noteq> [])"

definition or_null :: "string option \<Rightarrow> string option" where
  "or_null x = (if truthy x then x else None)"

definition or_zero :: "nat option \<Rightarrow> nat" where
  "or_zero x = (case x of None \<Rightarrow> 0 | Some n \<Rightarrow> n)"

definition startsWith :: "string \<Rightarrow> string \<Rightarrow> bool" where
  "startsWith s p = (take (length p) s = p)"

definition substring :: "string \<Rightarrow> nat \<Rightarrow> nat \<Rightarrow> string" where
  "substring s i j = take (j - i) (drop i s)"

definition toLowerChar :: "char \<Rightarrow> char" where
  "toLowerChar c =
     (if 65 \<le> (of_char c :: nat) \<and> (of_char c :: nat) \<le> 90
      then char_of ((of_char c :: nat) + 32) else c)"


text \<open>
  \<^verbatim>\<open>
  function isValidSquare(square) {
    if (!square || typeof square !== 'string' || square.length !== 2) return false;
    const file = square[0].toLowerCase();
    const rank = square[1];
    return file >= 'a' && file <= 'h' && rank >= '1' && rank <= '8';
  }
  \<close>
\<close>

definition isValidSquare :: "string \<Rightarrow> bool" where
  "isValidSquare square =
     (case square of
        [f, r] \<Rightarrow>
          97 \<le> (of_char (toLowerChar f) :: nat) \<and> (of_char (toLowerChar f) :: nat) \<le> 104
          \<and> 49 \<le> (of_char r :: nat) \<and> (of_char r :: nat) \<le> 56
      | _ \<Rightarrow> False)"

section \<open>Brushes: from the server's colour to the arrow's look\<close>

text \<open>
  \<^verbatim>\<open>
  function getChessgroundBrush(backendColor, isRepertoire = false) {
    if (isRepertoire) { return 'repertoire'; }
    const colorToBrush = {
      '#4caf50': 'excellent', '#8bc34a': 'good', '#ffeb3b': 'average',
      '#ff9800': 'below', '#f44336': 'poor', '#9e9e9e': 'nodata'
    };
    const result = colorToBrush[backendColor] || 'nodata';
    return result;
  }
  \<close>
  \<^verbatim>\<open>colorToBrush\<close> is an ordinary object, so a lookup that misses its six own keys goes
  on to \<^verbatim>\<open>Object.prototype\<close>: for one of the names every object inherits it yields
  that inherited member (a function or object, always truthy), not \<^verbatim>\<open>undefined\<close>.
  The model keeps this: the result is a string or an inherited member.
\<close>

datatype js_value = JString string | JInherited string

definition objectPrototypeMembers :: "string list" where
  "objectPrototypeMembers =
     [''constructor'', ''hasOwnProperty'', ''isPrototypeOf'', ''propertyIsEnumerable'',
      ''toLocaleString'', ''toString'', ''valueOf'', ''__proto__'',
      ''__defineGetter__'', ''__defineSetter__'', ''__lookupGetter__'',
      ''__lookupSetter__'']"

definition colorToBrush :: "(string \<times> string) list" where
  "colorToBrush =
     [(''#4caf50'', ''excellent''), (''#8bc34a'', ''good''), (''#ffeb3b'', ''average''),
      (''#ff9800'', ''below''), (''#f44336'', ''poor''), (''#9e9e9e'', ''nodata'')]"

definition js_get :: "(string \<times> string) list \<Rightarrow> string \<Rightarrow> js_value option" where
  "js_get obj k =
     (case map_of obj k of
        Some v \<Rightarrow> Some (JString v)
      | None \<Rightarrow> if k \<in> set objectPrototypeMembers then Some (JInherited k) else None)"

definition js_or :: "js_value option \<Rightarrow> js_value \<Rightarrow> js_value" where
  "js_or v d =
     (case v of
        None \<Rightarrow> d
      | Some (JString s) \<Rightarrow> if s = [] then d else JString s
      | Some (JInherited k) \<Rightarrow> JInherited k)"

definition getChessgroundBrush :: "string \<Rightarrow> bool \<Rightarrow> js_value" where
  "getChessgroundBrush backendColor isRepertoire =
     (if isRepertoire then JString ''repertoire''
      else js_or (js_get colorToBrush backendColor) (JString ''nodata''))"

text \<open>The documented input of \<^verbatim>\<open>getChessgroundBrush\<close> is a
  \<^verbatim>\<open>Hex color from backend (e.g., '#4caf50')\<close>: a string that starts with the hash
  sign.\<close>

definition isHexColor :: "string \<Rightarrow> bool" where
  "isHexColor c = (case c of [] \<Rightarrow> False | x # xs \<Rightarrow> x = CHR ''#'')"

text \<open>\<^verbatim>\<open>config.drawable.brushes\<close>: the look of each brush is a constant of the table.\<close>

record brush =
  brush_key :: string
  brush_color :: string
  opacity :: rat
  lineWidth :: nat

definition brushes :: "(string \<times> brush) list" where
  "brushes =
     [(''excellent'', \<lparr>brush_key = ''excellent'', brush_color = ''#4caf50'', opacity = 1, lineWidth = 6\<rparr>),
      (''good'', \<lparr>brush_key = ''good'', brush_color = ''#8bc34a'', opacity = 1, lineWidth = 6\<rparr>),
      (''average'', \<lparr>brush_key = ''average'', brush_color = ''#ffeb3b'', opacity = 1, lineWidth = 6\<rparr>),
      (''below'', \<lparr>brush_key = ''below'', brush_color = ''#ff9800'', opacity = 1, lineWidth = 6\<rparr>),
      (''poor'', \<lparr>brush_key = ''poor'', brush_color = ''#f44336'', opacity = 1, lineWidth = 6\<rparr>),
      (''nodata'', \<lparr>brush_key = ''nodata'', brush_color = ''#9e9e9e'', opacity = 1, lineWidth = 4\<rparr>),
      (''repertoire'', \<lparr>brush_key = ''repertoire'', brush_color = ''#4caf50'', opacity = 1, lineWidth = 8\<rparr>)]"

text \<open>A shape handed to \<^verbatim>\<open>cg.setShapes\<close>, and the board it is drawn on.\<close>

record shape =
  orig :: string
  dest :: string
  shape_brush :: js_value
  system :: bool

record board =
  boardReady :: bool
  shapes :: "shape list"

text \<open>The board draws a shape with the entry of the brush table its \<^verbatim>\<open>brush\<close> names.\<close>

definition shapeStyle :: "shape \<Rightarrow> brush option" where
  "shapeStyle sh = (case shape_brush sh of JString b \<Rightarrow> map_of brushes b | JInherited k \<Rightarrow> None)"

text \<open>
  \<^verbatim>\<open>
  function showAvailableMovesArrows(moves) {
    appState.currentArrows = moves || [];
    clearArrows();                       // keeps the shapes that are not system shapes
    if (appState.trainingMode) return;
    if (!moves || moves.length === 0) return;
    if (!isBoardReady()) { setTimeout(...retry...); return; }
    const currentShapes = window.cg.state.drawable.shapes || [];
    const newArrows = [];
    moves.forEach((move, index) => {
      const fromSquare = move.uci ? move.uci.substring(0, 2) : null;
      const toSquare = move.uci ? move.uci.substring(2, 4) : null;
      if (fromSquare && toSquare && isValidSquare(fromSquare) && isValidSquare(toSquare)) {
        const backendColor = move.color || '#9e9e9e';
        const brushName = window.getChessgroundBrush
          ? window.getChessgroundBrush(backendColor, appState.currentPlayer === 'My Repertoire')
          : 'nodata';
        newArrows.push({ orig: fromSquare, dest: toSquare, brush: brushName, system: true });
      }
    });
    const userShapes = currentShapes.filter(shape => !shape.system);
    window.cg.setShapes([...userShapes, ...newArrows]);
  }
  \<close>
  \<^verbatim>\<open>window.getChessgroundBrush\<close> is installed when the page loads. The arrow is built
  from the move's \<^verbatim>\<open>uci\<close> and \<^verbatim>\<open>color\<close> alone.
\<close>

definition arrowFor :: "app_state \<Rightarrow> move \<Rightarrow> shape list" where
  "arrowFor app m =
     (case uci m of
        None \<Rightarrow> []
      | Some u \<Rightarrow>
          if u = [] then []
          else
            let fromSquare = substring u 0 2; toSquare = substring u 2 4
            in if fromSquare \<noteq> [] \<and> toSquare \<noteq> [] \<and> isValidSquare fromSquare
                  \<and> isValidSquare toSquare
               then
                 let backendColor =
                       (case color m of
                          None \<Rightarrow> ''#9e9e9e''
                        | Some c \<Rightarrow> if c = [] then ''#9e9e9e'' else c);
                     brushName = getChessgroundBrush backendColor
                                   (currentPlayer app = Some ''My Repertoire'')
                 in [\<lparr>orig = fromSquare, dest = toSquare, shape_brush = brushName,
                      system = True\<rparr>]
               else [])"

definition clearArrows :: "board \<Rightarrow> board" where
  "clearArrows b = b\<lparr>shapes := filter (\<lambda>sh. \<not> system sh) (shapes b)\<rparr>"

definition showAvailableMovesArrows :: "move list \<Rightarrow> app_state \<times> board \<Rightarrow> app_state \<times> board" where
  "showAvailableMovesArrows moves st =
     (let app = (fst st)\<lparr>currentArrows := moves\<rparr>;
          b = clearArrows (snd st)
      in if trainingMode app then (app, b)
         else if moves = [] then (app, b)
         else if \<not> boardReady b then (app, b)
         else (app, b\<lparr>shapes := filter (\<lambda>sh. \<not> system sh) (shapes b)
                                   @ concat (map (arrowFor app) moves)\<rparr>))"

section \<open>Rendering move statistics\<close>

text \<open>\<^verbatim>\<open>Math.round\<close> rounds to the nearest integer, halves upwards.\<close>

definition mathRound :: "rat \<Rightarrow> int" where
  "mathRound x = \<lfloor>x + 1 / 2\<rfloor>"

definition rate_or_zero :: "rat option \<Rightarrow> rat" where
  "rate_or_zero x = (case x of None \<Rightarrow> 0 | Some r \<Rightarrow> r)"

text \<open>Decimal text of a count, and \<^verbatim>\<open>x.toFixed(1)\<close>: the nearest tenth (the larger
  one on a tie), written with one decimal and the sign of \<open>x\<close>.\<close>

definition digit_char :: "nat \<Rightarrow> char" where
  "digit_char d = ''0123456789'' ! d"

function show_nat :: "nat \<Rightarrow> string" where
  "show_nat n = (if n < 10 then [digit_char n] else show_nat (n div 10) @ [digit_char (n mod 10)])"
  by pat_completeness auto
termination
  by (relation "measure (\<lambda>n. n)") auto

declare show_nat.simps [simp del]

definition show_int :: "int \<Rightarrow> string" where
  "show_int i = (if i < 0 then ''-'' @ show_nat (nat (- i)) else show_nat (nat i))"

definition toFixed1 :: "rat \<Rightarrow> string" where
  "toFixed1 x =
     (let n = nat \<lfloor>\<bar>x\<bar> * 10 + 1 / 2\<rfloor>
      in (if x < 0 then ''-'' else []) @ show_nat (n div 10) @ ''.'' @ show_nat (n mod 10))"

text \<open>
  The compact bar of \<^verbatim>\<open>MoveStatsRenderer\<close>:
  \<^verbatim>\<open>
  static createCompactStatsBar(move) {
    const bar = document.createElement('div');      // border: 1px solid #ccc
    const games = move.games || 0;   const wins = move.wins || 0;
    const draws = move.draws || 0;   const losses = move.losses || 0;
    if (games === 0) {
      bar.style.background = '#f8f9fa'; bar.style.border = '1px dashed #ccc';
      bar.setAttribute('aria-label', 'Keine Spieldaten verfuegbar');
      return bar;
    }
    const total = wins + draws + losses;
    if (total === 0) {
      bar.style.background = '#f8f9fa'; bar.style.border = '1px dashed #ccc';
      return bar;
    }
    const winPercent = (wins / games) * 100;
    const drawPercent = (draws / games) * 100;
    const lossPercent = (losses / games) * 100;
    if (winPercent > 0)  this.addBarSegment(bar, winPercent, '#ffffff', '1px solid #999', `Siege: ...`);
    if (drawPercent > 0) this.addBarSegment(bar, drawPercent, '#888888', 'none', `Remis: ...`);
    if (lossPercent > 0) this.addBarSegment(bar, lossPercent, '#333333', 'none', `Niederlagen: ...`);
    bar.setAttribute('aria-label', `Statistik: ${Math.round(winPercent)}% Siege, ...`);
    return bar;
  }
  \<close>
  A segment keeps its width in percent, its colours, and the count and rounded
  percentage of its tooltip; the bar's label is the no-data text or the three rounded
  percentages.
\<close>

definition winPercent :: "move \<Rightarrow> rat" where
  "winPercent m = (of_nat (or_zero (wins m)) / of_nat (or_zero (games m))) * 100"

definition drawPercent :: "move \<Rightarrow> rat" where
  "drawPercent m = (of_nat (or_zero (draws m)) / of_nat (or_zero (games m))) * 100"

definition lossPercent :: "move \<Rightarrow> rat" where
  "lossPercent m = (of_nat (or_zero (losses m)) / of_nat (or_zero (games m))) * 100"

record segment =
  seg_width :: rat
  seg_background :: string
  seg_border :: string
  seg_name :: string
  seg_count :: nat
  seg_rounded :: int

datatype bar_label = NoGamesLabel | StatistikLabel int int int

record stats_bar =
  bar_background :: "string option"
  bar_border :: string
  bar_label :: "bar_label option"
  segments :: "segment list"

definition addBarSegment :: "rat \<Rightarrow> string \<Rightarrow> string \<Rightarrow> string \<Rightarrow> nat \<Rightarrow> segment" where
  "addBarSegment percentage backgroundColor border name count =
     \<lparr>seg_width = percentage, seg_background = backgroundColor, seg_border = border,
      seg_name = name, seg_count = count, seg_rounded = mathRound percentage\<rparr>"

definition createCompactStatsBar :: "move \<Rightarrow> stats_bar" where
  "createCompactStatsBar m =
     (if or_zero (games m) = 0
      then \<lparr>bar_background = Some ''#f8f9fa'', bar_border = ''1px dashed #ccc'',
            bar_label = Some NoGamesLabel, segments = []\<rparr>
      else if or_zero (wins m) + or_zero (draws m) + or_zero (losses m) = 0
      then \<lparr>bar_background = Some ''#f8f9fa'', bar_border = ''1px dashed #ccc'',
            bar_label = None, segments = []\<rparr>
      else \<lparr>bar_background = None, bar_border = ''1px solid #ccc'',
            bar_label = Some (StatistikLabel (mathRound (winPercent m))
                          (mathRound (drawPercent m)) (mathRound (lossPercent m))),
            segments =
              (if winPercent m > 0
               then [addBarSegment (winPercent m) ''#ffffff'' ''1px solid #999'' ''Siege''
                       (or_zero (wins m))] else [])
              @ (if drawPercent m > 0
                 then [addBarSegment (drawPercent m) ''#888888'' ''none'' ''Remis''
                         (or_zero (draws m))] else [])
              @ (if lossPercent m > 0
                 then [addBarSegment (lossPercent m) ''#333333'' ''none'' ''Niederlagen''
                         (or_zero (losses m))] else [])\<rparr>)"

text \<open>
  The accessibility label of the same renderer's button:
  \<^verbatim>\<open>
  const games = move.games || 0;
  const winPercent = games > 0 ? Math.round(((move.wins || 0) / games) * 100) : 0;
  container.setAttribute('aria-label',
    `Zug ${move.san || '?'}, ${games} Spiele gespielt, ${winPercent}% Siegrate, ...`);
  \<close>
  Of the label the model keeps the two texts \<^verbatim>\<open>${games} Spiele gespielt\<close> and
  \<^verbatim>\<open>${winPercent}% Siegrate\<close>.
\<close>

definition createMoveButton_ariaLabel :: "move \<Rightarrow> string \<times> string" where
  "createMoveButton_ariaLabel m =
     (let g = or_zero (games m);
          wp = (if g > 0 then mathRound ((of_nat (or_zero (wins m)) / of_nat g) * 100) else 0)
      in (show_nat g @ '' Spiele gespielt'', show_int wp @ ''% Siegrate''))"

text \<open>
  The win-rate text of \<^verbatim>\<open>ChessComMoveStatsTest\<close>:
  \<^verbatim>\<open>
  static createWinrateDisplay(move) {
    const winPercent = move.win_rate || 0;
    winrate.textContent = move.games === 0 ? DASH : `${Math.round(winPercent)}%`;
  }
  \<close>
  where \<^verbatim>\<open>DASH\<close> is the en dash.
\<close>

datatype winrate_text = Dash | PercentText string

definition createWinrateDisplay :: "move \<Rightarrow> winrate_text" where
  "createWinrateDisplay m =
     (if games m = Some 0 then Dash
      else PercentText (show_int (mathRound (rate_or_zero (win_rate m))) @ ''%''))"

text \<open>
  The position-statistics panel:
  \<^verbatim>\<open>
  function updatePositionStats(stats) {
    const statsContent = document.getElementById('statsContent');
    if (statsContent && stats) {
      statsContent.innerHTML = `...
          <strong>Games:</strong> ${stats.played || 0} ...
          <strong>Win Rate:</strong> ${(stats.win_rate || 0).toFixed(1)}% ...`;
    }
  }
  \<close>
  The result is the new content of the panel, or \<open>None\<close> when nothing is written.
\<close>

record position_stats =
  played :: "nat option"
  stats_win_rate :: "rat option"

record stats_panel =
  panel_games :: string
  panel_win_rate :: string

definition updatePositionStats :: "bool \<Rightarrow> position_stats option \<Rightarrow> stats_panel option" where
  "updatePositionStats statsContentExists stats =
     (case stats of
        None \<Rightarrow> None
      | Some st \<Rightarrow>
          if statsContentExists
          then Some \<lparr>panel_games = show_nat (or_zero (played st)),
                     panel_win_rate = toFixed1 (rate_or_zero (stats_win_rate st)) @ ''%''\<rparr>
          else None)"

section \<open>Navigation by node id\<close>

text \<open>A node as the server sends it, and the summary it carries of each child.\<close>

record child_summary =
  move_san :: "string option"
  child_color :: "string option"
  child_games :: "nat option"
  child_win_rate :: "rat option"

record node =
  node_ident :: node_id
  node_fen :: string
  node_parent_id :: "node_id option"
  node_children :: "(string \<times> child_summary) list option"
  node_games :: "nat option"
  node_win_rate :: "rat option"

text \<open>
  \<^verbatim>\<open>
  async function ensureNodeIdForCurrentPosition() {
    if (appState.currentNodeId) return appState.currentNodeId;
    try {
      const response = await fetch('/api/find_moves', { ... fen: appState.currentPosition ... });
      const data = await response.json();
      appState.currentNodeId = data.node_id || null;
      return appState.currentNodeId;
    } catch (e) { appState.currentNodeId = null; return null; }
  }
  \<close>
\<close>

record find_moves_response =
  found_node_id :: "node_id option"

definition ensureNodeIdForCurrentPosition ::
  "find_moves_response fetch_result \<Rightarrow> app_state \<Rightarrow> node_id option \<times> app_state \<times> effect list" where
  "ensureNodeIdForCurrentPosition found app =
     (if truthy (currentNodeId app) then (currentNodeId app, app, [])
      else
        (case found of
           FetchThrows \<Rightarrow> (None, app\<lparr>currentNodeId := None\<rparr>, [Fetch ''/api/find_moves''])
         | Response data \<Rightarrow>
             (or_null (found_node_id data),
              app\<lparr>currentNodeId := or_null (found_node_id data)\<rparr>,
              [Fetch ''/api/find_moves''])))"

text \<open>
  \<^verbatim>\<open>
  async function sendMoveToBackend(moveSan) {
    if (!appState.currentNodeId) { await ensureNodeIdForCurrentPosition(); }
    if (!appState.currentNodeId || !moveSan) { return null; }
    ...
    try {
      const response = await fetch('/api/get_child_node', { ... });
      const data = await response.json();
      if (data.success && data.child) {
        appState.currentNodeId = data.child.id;
        return data.child;
      }
      return null;
    } catch (e) { return null; }
  }
  \<close>
\<close>

record child_response =
  child_success :: bool
  child :: "node option"

definition sendMoveToBackend ::
  "string option \<Rightarrow> find_moves_response fetch_result \<Rightarrow> child_response fetch_result
    \<Rightarrow> app_state \<Rightarrow> node option completion \<times> app_state \<times> effect list" where
  "sendMoveToBackend moveSan found answer app =
     (let (app1, eff1) =
            (if \<not> truthy (currentNodeId app)
             then snd (ensureNodeIdForCurrentPosition found app) else (app, []))
      in if \<not> truthy (currentNodeId app1) \<or> \<not> truthy moveSan
         then (Returned None, app1, eff1)
         else
           (case answer of
              FetchThrows \<Rightarrow> (Returned None, app1, eff1 @ [Fetch ''/api/get_child_node''])
            | Response data \<Rightarrow>
                (case child data of
                   None \<Rightarrow> (Returned None, app1, eff1 @ [Fetch ''/api/get_child_node''])
                 | Some c \<Rightarrow>
                     if child_success data
                     then (Returned (Some c), app1\<lparr>currentNodeId := Some (node_ident c)\<rparr>,
                           eff1 @ [Fetch ''/api/get_child_node''])
                     else (Returned None, app1, eff1 @ [Fetch ''/api/get_child_node'']))))"






section \<open>Moves made on the board\<close>







section \<open>Training: learned moves and mistakes\<close>

text \<open>
  The answers of the training endpoints. A flag that is missing from an answer is
  falsy, which is how the source's \<^verbatim>\<open>result.success && result.newly_learned\<close> reads it;
  a success answer of \<^verbatim>\<open>record_mistake\<close> carries the new count.
\<close>

record mark_response =
  mark_success :: bool
  newly_learned :: bool

record unmark_response =
  unmark_success :: bool
  was_learned :: bool


record learning_stats_response =
  stats_success :: bool
  directly_learned_node_ids :: "node_id list option"
  stats_mistake_count :: "nat option"

text \<open>
  \<^verbatim>\<open>
  function updateLearningStatsDisplay() {
    const learned = appState.directlyLearnedNodes.size;
    const mistakes = appState.mistakeCount;
    ... statsDiv.innerHTML = `Gelernt: ${learned}  Fehler: ${mistakes}`;
  }
  \<close>
\<close>

definition updateLearningStatsDisplay :: "app_state \<Rightarrow> effect" where
  "updateLearningStatsDisplay app = StatsDisplay (card (directlyLearnedNodes app)) (mistakeCount app)"

text \<open>
  \<^verbatim>\<open>
  async function handleCorrectMove(nodeId) {
    const result = await markNodeAsDirectlyLearned(nodeId, appState.trainingSessionId);
    if (result.success && result.newly_learned) {
      appState.directlyLearnedNodes.add(nodeId);
      updateLearningStatsDisplay();
    }
  }
  \<close>
  There is no \<^verbatim>\<open>try\<close>: an exception of the request escapes.
\<close>

definition handleCorrectMove ::
  "node_id \<Rightarrow> mark_response fetch_result \<Rightarrow> app_state
    \<Rightarrow> unit completion \<times> app_state \<times> effect list" where
  "handleCorrectMove nodeId answer app =
     (case answer of
        FetchThrows \<Rightarrow> (Thrown, app, [])
      | Response result \<Rightarrow>
          if mark_success result \<and> newly_learned result
          then
            (let app' = app\<lparr>directlyLearnedNodes := insert nodeId (directlyLearnedNodes app)\<rparr>
             in (Returned (), app', [updateLearningStatsDisplay app']))
          else (Returned (), app, []))"


text \<open>
  \<^verbatim>\<open>
  async function getLearningStats(sessionId) {
    try {
      const response = await fetch(`/api/training/get_learning_stats?session_id=${sessionId}`);
      const data = await response.json();
      if (data.success) {
        appState.directlyLearnedNodes = new Set(data.directly_learned_node_ids || []);
        appState.mistakeCount = data.mistake_count || 0;
      }
      return data;
    } catch (e) { return null; }
  }
  \<close>
\<close>

definition getLearningStats ::
  "session_id option \<Rightarrow> learning_stats_response fetch_result \<Rightarrow> app_state
    \<Rightarrow> learning_stats_response option completion \<times> app_state" where
  "getLearningStats sessionId answer app =
     (case answer of
        FetchThrows \<Rightarrow> (Returned None, app)
      | Response data \<Rightarrow>
          if stats_success data
          then (Returned (Some data),
                app\<lparr>directlyLearnedNodes :=
                       (case directly_learned_node_ids data of None \<Rightarrow> {} | Some ids \<Rightarrow> set ids),
                     mistakeCount := or_zero (stats_mistake_count data)\<rparr>)
          else (Returned (Some data), app))"

text \<open>
  \<^verbatim>\<open>
  async function startTrainingMode(playerColor) {
    try {
      appState.trainingMode = true;
      appState.currentColor = playerColor;
      appState.currentPlayer = 'My Repertoire';
      appState.isOpponentTurn = (playerColor === 'black');
      const response = await fetch(`/api/process_games/My Repertoire?color=${playerColor}`, ...);
      const data = await response.json();
      if (!data.success) { throw new Error('Failed to load repertoire tree'); }
      appState.trainingSessionId = `training_${Date.now()}_${Math.random()...}`;
      appState.studiedNodes.clear();
      appState.currentPosition = data.position;
      appState.availableMoves = data.moves || [];
      appState.currentNodeId = data.node_id || null;
      appState.trainingHistory = [];
      showTrainingModeUI();
      setTimeout(...);       // draws the board later
    } catch (error) { alert(...); }
  }
  \<close>
  The fresh session id (clock and random number) is an input. These are all the
  assignments to \<^verbatim>\<open>appState\<close> that the function makes.
\<close>

record process_games_response =
  games_success :: bool
  start_position :: string
  start_moves :: "move list option"
  start_node_id :: "node_id option"

definition startTrainingMode ::
  "string \<Rightarrow> session_id \<Rightarrow> process_games_response fetch_result \<Rightarrow> app_state
    \<Rightarrow> app_state \<times> effect list" where
  "startTrainingMode playerColor freshSessionId answer app =
     (let app1 = app\<lparr>trainingMode := True, currentColor := playerColor,
                      currentPlayer := Some ''My Repertoire'',
                      isOpponentTurn := (playerColor = ''black'')\<rparr>
      in case answer of
           FetchThrows \<Rightarrow> (app1, [Alert])
         | Response data \<Rightarrow>
             if \<not> games_success data then (app1, [Alert])
             else
               (app1\<lparr>trainingSessionId := Some freshSessionId,
                      studiedNodes := {},
                      currentPosition := start_position data,
                      availableMoves := (case start_moves data of None \<Rightarrow> [] | Some ms \<Rightarrow> ms),
                      currentNodeId := or_null (start_node_id data),
                      trainingHistoryLength := 0\<rparr>, []))"

text \<open>
  \<^verbatim>\<open>
  function endTrainingMode() {
    appState.trainingMode = false;
    appState.isOpponentTurn = false;
    appState.trainingHistory = [];
    ...
  }
  \<close>
\<close>

definition endTrainingMode :: "app_state \<Rightarrow> app_state" where
  "endTrainingMode app =
     app\<lparr>trainingMode := False, isOpponentTurn := False, trainingHistoryLength := 0\<rparr>"

section \<open>The training session engine on the server\<close>

text \<open>
  The server's training endpoints (\<^verbatim>\<open>/api/training/mark_directly_learned\<close>,
  \<^verbatim>\<open>unmark_directly_learned\<close>, \<^verbatim>\<open>record_mistake\<close>) are not among the sources.
  Their behaviour is taken from the spec's training session engine.
\<close>

text \<open>
  Modelled from the spec: the session state of the missing server code. A
  \<open>TrainingSession\<close> holds \<open>studiedNodeIds\<close>, \<open>directlyLearnedNodeIds\<close> and
  \<open>mistakeCount\<close>; sessions live in a store keyed by session id.
\<close>

record training_session =
  studiedNodeIds :: "node_id set"
  directlyLearnedNodeIds :: "node_id set"
  session_mistakeCount :: nat

type_synonym session_store = "session_id \<Rightarrow> training_session option"

text \<open>
  Modelled from the spec: the state of a session that the missing server code creates
  when training starts, with empty sets and no mistakes.
\<close>

definition newSession :: training_session where
  "newSession = \<lparr>studiedNodeIds = {}, directlyLearnedNodeIds = {}, session_mistakeCount = 0\<rparr>"

text \<open>
  Modelled from the spec: \<open>markDirectlyLearned(session, nodeId)\<close> of the missing
  server code adds to \<open>directlyLearnedNodeIds\<close> only if absent and returns whether it
  was newly added.
\<close>

definition markDirectlyLearned :: "training_session \<Rightarrow> node_id \<Rightarrow> bool \<times> training_session" where
  "markDirectlyLearned session nodeId =
     (if nodeId \<in> directlyLearnedNodeIds session then (False, session)
      else (True, session\<lparr>directlyLearnedNodeIds :=
                             insert nodeId (directlyLearnedNodeIds session)\<rparr>))"

text \<open>
  Modelled from the spec: \<open>unmarkDirectlyLearned(session, nodeId)\<close> of the missing
  server code revokes the credit at that node and returns whether it was learned.
\<close>

definition unmarkDirectlyLearned :: "training_session \<Rightarrow> node_id \<Rightarrow> bool \<times> training_session" where
  "unmarkDirectlyLearned session nodeId =
     (if nodeId \<in> directlyLearnedNodeIds session
      then (True, session\<lparr>directlyLearnedNodeIds := directlyLearnedNodeIds session - {nodeId}\<rparr>)
      else (False, session))"

text \<open>
  Modelled from the spec: \<open>recordMistake(session)\<close> of the missing server code is a
  monotonic increment of the session's counter and returns the new count.
\<close>

definition recordMistake :: "training_session \<Rightarrow> nat \<times> training_session" where
  "recordMistake session =
     (Suc (session_mistakeCount session),
      session\<lparr>session_mistakeCount := Suc (session_mistakeCount session)\<rparr>)"

text \<open>
  Modelled from the spec: the lookup of a session in the keyed store of the missing
  server code. An unknown session (or no session id) is \<open>NotFound\<close>.
\<close>

definition findSession :: "session_store \<Rightarrow> session_id option \<Rightarrow> (session_id \<times> training_session) option" where
  "findSession store sessionId =
     (case sessionId of
        None \<Rightarrow> None
      | Some sid \<Rightarrow> (case store sid of None \<Rightarrow> None | Some session \<Rightarrow> Some (sid, session)))"

text \<open>
  Modelled from the spec: the mark endpoint of the missing server code. It looks the
  session up, answers without success when it is \<open>NotFound\<close>, and otherwise
  applies the session operation, stores the new session and answers with its result.
\<close>

definition api_mark_directly_learned ::
  "session_store \<Rightarrow> session_id option \<Rightarrow> node_id \<Rightarrow> mark_response \<times> session_store" where
  "api_mark_directly_learned store sessionId nodeId =
     (case findSession store sessionId of
        None \<Rightarrow> (\<lparr>mark_success = False, newly_learned = False\<rparr>, store)
      | Some (sid, session) \<Rightarrow>
          (\<lparr>mark_success = True, newly_learned = fst (markDirectlyLearned session nodeId)\<rparr>,
           store(sid := Some (snd (markDirectlyLearned session nodeId)))))"

text \<open>
  Modelled from the spec: the unmark endpoint of the missing server code, in the same
  way.
\<close>

definition api_unmark_directly_learned ::
  "session_store \<Rightarrow> session_id option \<Rightarrow> node_id \<Rightarrow> unmark_response \<times> session_store" where
  "api_unmark_directly_learned store sessionId nodeId =
     (case findSession store sessionId of
        None \<Rightarrow> (\<lparr>unmark_success = False, was_learned = False\<rparr>, store)
      | Some (sid, session) \<Rightarrow>
          (\<lparr>unmark_success = True, was_learned = fst (unmarkDirectlyLearned session nodeId)\<rparr>,
           store(sid := Some (snd (unmarkDirectlyLearned session nodeId)))))"


text \<open>
  The browser and the server together: \<^verbatim>\<open>handleCorrectMove\<close> of the source, run
  against the answer of the session engine above (the request arrives and is
  answered).
\<close>

definition correctMoveRoundTrip ::
  "node_id \<Rightarrow> app_state \<times> session_store
    \<Rightarrow> mark_response \<times> (app_state \<times> session_store) \<times> effect list" where
  "correctMoveRoundTrip nodeId st =
     (let (result, store') = api_mark_directly_learned (snd st) (trainingSessionId (fst st)) nodeId;
          (outcome, app', eff) = handleCorrectMove nodeId (Response result) (fst st)
      in (result, (app', store'), eff))"




section \<open>Properties\<close>

text \<open>
  Claim C10. \<^verbatim>\<open>markNodeAsStudied\<close> is atomic on error: whatever the server answers,
  the call returns without raising; it returns true, and adds the node id to
  \<^verbatim>\<open>studiedNodes\<close> (changing nothing else), exactly when the server reports success;
  on a failure answer or a thrown fetch error it returns false and \<^verbatim>\<open>appState\<close> is
  unchanged.
\<close>

theorem markNodeAsStudied_atomic:
  "fst (markNodeAsStudied nodeId sessionId answer app) \<noteq> Thrown
   \<and> (fst (markNodeAsStudied nodeId sessionId answer app) = Returned True
        \<longleftrightarrow> (\<exists>data. answer = Response data \<and> studied_success data))
   \<and> ((\<exists>data. answer = Response data \<and> studied_success data) \<longrightarrow>
        snd (markNodeAsStudied nodeId sessionId answer app)
          = app\<lparr>studiedNodes := insert nodeId (studiedNodes app)\<rparr>)
   \<and> (\<not> (\<exists>data. answer = Response data \<and> studied_success data) \<longrightarrow>
        fst (markNodeAsStudied nodeId sessionId answer app) = Returned False
        \<and> snd (markNodeAsStudied nodeId sessionId answer app) = app)"
  by (cases answer) (simp_all add: markNodeAsStudied_def)

theorem markNodeAsStudied_atomic_witness:
  "markNodeAsStudied ''n7'' (Some ''s1'') (Response \<lparr>studied_success = True\<rparr>) initialAppState
     = (Returned True, initialAppState\<lparr>studiedNodes := {''n7''}\<rparr>)
   \<and> markNodeAsStudied ''n7'' (Some ''s1'') (Response \<lparr>studied_success = False\<rparr>) initialAppState
     = (Returned False, initialAppState)
   \<and> markNodeAsStudied ''n7'' (Some ''s1'') FetchThrows initialAppState
     = (Returned False, initialAppState)"
proof -
  have ok: "\<exists>data. Response \<lparr>studied_success = True\<rparr> = Response data \<and> studied_success data"
    by simp
  have ko: "\<not> (\<exists>data. Response \<lparr>studied_success = False\<rparr> = Response data \<and> studied_success data)"
    by simp
  have thrown: "\<not> (\<exists>data. (FetchThrows :: studied_response fetch_result) = Response data \<and> studied_success data)"
    by simp
  note a = markNodeAsStudied_atomic [of "''n7''" "Some ''s1''" "Response \<lparr>studied_success = True\<rparr>" initialAppState]
  note b = markNodeAsStudied_atomic [of "''n7''" "Some ''s1''" "Response \<lparr>studied_success = False\<rparr>" initialAppState]
  note c = markNodeAsStudied_atomic [of "''n7''" "Some ''s1''" FetchThrows initialAppState]
  from a ok have a': "markNodeAsStudied ''n7'' (Some ''s1'') (Response \<lparr>studied_success = True\<rparr>) initialAppState
     = (Returned True, initialAppState\<lparr>studiedNodes := insert ''n7'' (studiedNodes initialAppState)\<rparr>)"
    by (metis prod.collapse)
  from b ko have b': "markNodeAsStudied ''n7'' (Some ''s1'') (Response \<lparr>studied_success = False\<rparr>) initialAppState
     = (Returned False, initialAppState)"
    by (metis prod.collapse)
  from c thrown have c': "markNodeAsStudied ''n7'' (Some ''s1'') FetchThrows initialAppState
     = (Returned False, initialAppState)"
    by (metis prod.collapse)
  from a' b' c' show ?thesis by (simp add: initialAppState_def)
qed

lemma js_get_miss:
  "c \<notin> fst ` set colorToBrush \<Longrightarrow> c \<notin> set objectPrototypeMembers \<Longrightarrow> js_get colorToBrush c = None"
proof -
  assume a: "c \<notin> fst ` set colorToBrush" and b: "c \<notin> set objectPrototypeMembers"
  from a have "map_of colorToBrush c = None" by (simp only: map_of_eq_None_iff not_False_eq_True)
  with b show ?thesis by (simp add: js_get_def)
qed

lemma hex_not_inherited: "isHexColor c \<Longrightarrow> c \<notin> set objectPrototypeMembers"
  by (cases c) (simp_all add: isHexColor_def objectPrototypeMembers_def)


lemma getChessgroundBrush_buckets:
    "getChessgroundBrush ''#4caf50'' False = JString ''excellent''"
    "getChessgroundBrush ''#8bc34a'' False = JString ''good''"
    "getChessgroundBrush ''#ffeb3b'' False = JString ''average''"
    "getChessgroundBrush ''#ff9800'' False = JString ''below''"
    "getChessgroundBrush ''#f44336'' False = JString ''poor''"
    "getChessgroundBrush ''#9e9e9e'' False = JString ''nodata''"
    by (simp_all add: getChessgroundBrush_def js_get_def js_or_def colorToBrush_def)

lemma getChessgroundBrush_other: "getChessgroundBrush c False = JString ''nodata''"
    if "c \<notin> fst ` set colorToBrush" "c \<notin> set objectPrototypeMembers" for c
    using that by (simp add: getChessgroundBrush_def js_get_miss js_or_def)



text \<open>
  Claim C5. The brush is a function of the two arguments alone (the source reads
  nothing else: \<^verbatim>\<open>colorToBrush\<close> is a local constant): equal arguments give equal
  brushes; a repertoire move always gets \<open>repertoire\<close>; each of the six bucket
  colours gets its bucket's brush; and every other input colour gets \<open>nodata\<close>.
  The last part holds for every hex colour, and more generally for every string that
  is not the name of a member inherited from \<^verbatim>\<open>Object.prototype\<close> (no colour is).
\<close>

theorem getChessgroundBrush_pure:
  "(\<forall>c1 r1 c2 r2. c1 = c2 \<and> r1 = r2 \<longrightarrow> getChessgroundBrush c1 r1 = getChessgroundBrush c2 r2)
   \<and> (\<forall>c. getChessgroundBrush c True = JString ''repertoire'')
   \<and> getChessgroundBrush ''#4caf50'' False = JString ''excellent''
   \<and> getChessgroundBrush ''#8bc34a'' False = JString ''good''
   \<and> getChessgroundBrush ''#ffeb3b'' False = JString ''average''
   \<and> getChessgroundBrush ''#ff9800'' False = JString ''below''
   \<and> getChessgroundBrush ''#f44336'' False = JString ''poor''
   \<and> getChessgroundBrush ''#9e9e9e'' False = JString ''nodata''
   \<and> (\<forall>c. isHexColor c \<and> c \<notin> fst ` set colorToBrush
          \<longrightarrow> getChessgroundBrush c False = JString ''nodata'')
   \<and> (\<forall>c. c \<notin> fst ` set colorToBrush \<and> c \<notin> set objectPrototypeMembers
          \<longrightarrow> getChessgroundBrush c False = JString ''nodata'')"
proof -
  have det: "\<forall>c1 r1 c2 r2. c1 = c2 \<and> r1 = r2 \<longrightarrow> getChessgroundBrush c1 r1 = getChessgroundBrush c2 r2"
    by (intro allI impI) (elim conjE, hypsubst, rule refl)
  have rep: "\<forall>c. getChessgroundBrush c True = JString ''repertoire''"
    by (simp add: getChessgroundBrush_def)
  have hex: "\<forall>c. isHexColor c \<and> c \<notin> fst ` set colorToBrush
          \<longrightarrow> getChessgroundBrush c False = JString ''nodata''"
  proof (intro allI impI, elim conjE)
    fix c assume h: "isHexColor c" and k: "c \<notin> fst ` set colorToBrush"
    from h have "c \<notin> set objectPrototypeMembers" by (rule hex_not_inherited)
    with k show "getChessgroundBrush c False = JString ''nodata''" by (rule getChessgroundBrush_other)
  qed
  have oth: "\<forall>c. c \<notin> fst ` set colorToBrush \<and> c \<notin> set objectPrototypeMembers
          \<longrightarrow> getChessgroundBrush c False = JString ''nodata''"
  proof (intro allI impI, elim conjE)
    fix c assume "c \<notin> fst ` set colorToBrush" "c \<notin> set objectPrototypeMembers"
    then show "getChessgroundBrush c False = JString ''nodata''" by (rule getChessgroundBrush_other)
  qed
  show ?thesis
    by (intro conjI det rep hex oth getChessgroundBrush_buckets)
qed


theorem getChessgroundBrush_pure_witness:
  "isHexColor ''#123456'' \<and> ''#123456'' \<notin> fst ` set colorToBrush
   \<and> ''red'' \<notin> fst ` set colorToBrush \<and> ''red'' \<notin> set objectPrototypeMembers
   \<and> getChessgroundBrush ''#123456'' False = JString ''nodata''
   \<and> getChessgroundBrush ''red'' False = JString ''nodata''"
proof -
  have a: "isHexColor ''#123456'' \<and> ''#123456'' \<notin> fst ` set colorToBrush"
    by (simp add: isHexColor_def colorToBrush_def)
  have b: "''red'' \<notin> fst ` set colorToBrush \<and> ''red'' \<notin> set objectPrototypeMembers"
    by (simp add: colorToBrush_def objectPrototypeMembers_def)
  have c: "\<forall>c. isHexColor c \<and> c \<notin> fst ` set colorToBrush
          \<longrightarrow> getChessgroundBrush c False = JString ''nodata''"
    using getChessgroundBrush_pure by (elim conjE)
  have d: "\<forall>c. c \<notin> fst ` set colorToBrush \<and> c \<notin> set objectPrototypeMembers
          \<longrightarrow> getChessgroundBrush c False = JString ''nodata''"
    using getChessgroundBrush_pure by (elim conjE)
  have e: "getChessgroundBrush ''#123456'' False = JString ''nodata''"
    by (rule c [rule_format, OF a])
  have f: "getChessgroundBrush ''red'' False = JString ''nodata''"
    by (rule d [rule_format, OF b])
  from a b e f show ?thesis by simp
qed









text \<open>
  Claim C2 says that no renderer shows a zero percentage for a move or position
  without games. The compact bar and the win-rate text do show the no-data form, but
  \<^verbatim>\<open>updatePositionStats\<close> has no such guard: for a position with
  \<^verbatim>\<open>played = 0\<close> it writes \<^verbatim>\<open>Win Rate: 0.0%\<close> into the panel, and the
  accessibility label of \<^verbatim>\<open>createMoveButton\<close> reads \<^verbatim>\<open>0% Siegrate\<close>. The theorem
  evaluates the four renderers on data without games.
\<close>

theorem zero_percent_shown_without_games:
  "updatePositionStats True (Some \<lparr>played = Some 0, stats_win_rate = Some 0\<rparr>)
     = Some \<lparr>panel_games = ''0'', panel_win_rate = ''0.0%''\<rparr>
   \<and> createMoveButton_ariaLabel
       \<lparr>uci = Some ''e2e4'', san = Some ''e4'', color = Some ''#9e9e9e'',
        games = Some 0, wins = Some 0, draws = Some 0, losses = Some 0, win_rate = Some 0,
        api_opacity = None, api_thickness = None\<rparr>
     = (''0 Spiele gespielt'', ''0% Siegrate'')
   \<and> createCompactStatsBar
       \<lparr>uci = Some ''e2e4'', san = Some ''e4'', color = Some ''#9e9e9e'',
        games = Some 0, wins = Some 0, draws = Some 0, losses = Some 0, win_rate = Some 0,
        api_opacity = None, api_thickness = None\<rparr>
     = \<lparr>bar_background = Some ''#f8f9fa'', bar_border = ''1px dashed #ccc'',
        bar_label = Some NoGamesLabel, segments = []\<rparr>
   \<and> createWinrateDisplay
       \<lparr>uci = Some ''e2e4'', san = Some ''e4'', color = Some ''#9e9e9e'',
        games = Some 0, wins = Some 0, draws = Some 0, losses = Some 0, win_rate = Some 0,
        api_opacity = None, api_thickness = None\<rparr>
     = Dash"
  by (simp add: updatePositionStats_def toFixed1_def or_zero_def rate_or_zero_def
      show_nat.simps [of 0] digit_char_def createMoveButton_ariaLabel_def show_int_def
      createCompactStatsBar_def createWinrateDisplay_def)

text \<open>The guard that the two other renderers have, for every move without games.\<close>

lemma no_data_bar:
  "or_zero (games m) = 0 \<Longrightarrow>
   createCompactStatsBar m = \<lparr>bar_background = Some ''#f8f9fa'', bar_border = ''1px dashed #ccc'',
        bar_label = Some NoGamesLabel, segments = []\<rparr>"
  by (simp add: createCompactStatsBar_def)

lemma no_data_winrate: "games m = Some 0 \<Longrightarrow> createWinrateDisplay m = Dash"
  by (simp add: createWinrateDisplay_def)

text \<open>
  Claim C6 says that an arrow's opacity and thickness follow the move's number of
  games. In \<^verbatim>\<open>showAvailableMovesArrows\<close> an arrow's look is the brush chosen from the
  move's colour, and every brush has a constant opacity and width: two moves of the
  same colour with 1 and with 1000 games (and different \<^verbatim>\<open>opacity\<close> and
  \<^verbatim>\<open>thickness\<close> sent by the server) are drawn alike, and a move with 1000 games that
  carries no colour is drawn thinner than another move with 1000 games.
\<close>

theorem arrows_ignore_games:
  "map shapeStyle (shapes (snd (showAvailableMovesArrows
      [\<lparr>uci = Some ''e2e4'', san = Some ''e4'', color = Some ''#4caf50'',
         games = Some 1, wins = Some 1, draws = Some 0, losses = Some 0, win_rate = Some 100,
         api_opacity = Some (3 / 10), api_thickness = Some 2\<rparr>,
       \<lparr>uci = Some ''d2d4'', san = Some ''d4'', color = Some ''#4caf50'',
         games = Some 1000, wins = Some 700, draws = Some 200, losses = Some 100,
         win_rate = Some 70, api_opacity = Some 1, api_thickness = Some 10\<rparr>,
       \<lparr>uci = Some ''c2c4'', san = Some ''c4'', color = None,
         games = Some 1000, wins = Some 700, draws = Some 200, losses = Some 100,
         win_rate = Some 70, api_opacity = Some 1, api_thickness = Some 10\<rparr>]
      (initialAppState, \<lparr>boardReady = True, shapes = []\<rparr>))))
   = [Some \<lparr>brush_key = ''excellent'', brush_color = ''#4caf50'', opacity = 1, lineWidth = 6\<rparr>,
      Some \<lparr>brush_key = ''excellent'', brush_color = ''#4caf50'', opacity = 1, lineWidth = 6\<rparr>,
      Some \<lparr>brush_key = ''nodata'', brush_color = ''#9e9e9e'', opacity = 1, lineWidth = 4\<rparr>]"
  by (simp add: showAvailableMovesArrows_def initialAppState_def clearArrows_def arrowFor_def
      substring_def isValidSquare_def toLowerChar_def getChessgroundBrush_def js_get_def
      js_or_def colorToBrush_def shapeStyle_def brushes_def Let_def)

text \<open>For every board and every list of moves: the look of a drawn arrow is one of
  the seven constant brushes (or none), whatever the games counts.\<close>

lemma arrow_style_from_colour:
  "sh \<in> set (arrowFor app m) \<Longrightarrow>
   shapeStyle sh = (case getChessgroundBrush
                            (case color m of None \<Rightarrow> ''#9e9e9e''
                             | Some c \<Rightarrow> if c = [] then ''#9e9e9e'' else c)
                            (currentPlayer app = Some ''My Repertoire'') of
                      JString b \<Rightarrow> map_of brushes b | JInherited k \<Rightarrow> None)"
  by (auto simp: arrowFor_def shapeStyle_def Let_def split: option.splits if_splits)

lemma api_mark_known:
  "findSession store sessionId = Some (sid, session) \<Longrightarrow>
   api_mark_directly_learned store sessionId nodeId
     = (\<lparr>mark_success = True, newly_learned = (nodeId \<notin> directlyLearnedNodeIds session)\<rparr>,
        store(sid := Some (session\<lparr>directlyLearnedNodeIds :=
                                   insert nodeId (directlyLearnedNodeIds session)\<rparr>)))"
  by (auto simp: api_mark_directly_learned_def markDirectlyLearned_def insert_absorb)

lemma api_mark_unknown:
  "findSession store sessionId = None \<Longrightarrow>
   api_mark_directly_learned store sessionId nodeId
     = (\<lparr>mark_success = False, newly_learned = False\<rparr>, store)"
  by (simp add: api_mark_directly_learned_def)

lemma findSession_Some:
  "findSession store sessionId = Some (sid, session) \<longleftrightarrow> sessionId = Some sid \<and> store sid = Some session"
  by (auto simp: findSession_def split: option.splits)

lemma findSession_after_mark:
  "findSession store sessionId = Some (sid, session) \<Longrightarrow>
   findSession (store(sid := Some session')) sessionId = Some (sid, session')"
  by (simp add: findSession_Some)

lemma correctMoveRoundTrip_unknown:
  assumes "findSession (snd st) (trainingSessionId (fst st)) = None"
  shows "correctMoveRoundTrip nodeId st = (\<lparr>mark_success = False, newly_learned = False\<rparr>, st, [])"
  using assms by (simp add: correctMoveRoundTrip_def api_mark_unknown handleCorrectMove_def)

lemma correctMoveRoundTrip_known:
  assumes "findSession (snd st) (trainingSessionId (fst st)) = Some (sid, session)"
  shows "correctMoveRoundTrip nodeId st =
     (\<lparr>mark_success = True, newly_learned = (nodeId \<notin> directlyLearnedNodeIds session)\<rparr>,
      ((if nodeId \<notin> directlyLearnedNodeIds session
        then (fst st)\<lparr>directlyLearnedNodes := insert nodeId (directlyLearnedNodes (fst st))\<rparr>
        else fst st),
       (snd st)(sid := Some (session\<lparr>directlyLearnedNodeIds :=
                                   insert nodeId (directlyLearnedNodeIds session)\<rparr>))),
      (if nodeId \<notin> directlyLearnedNodeIds session
       then [updateLearningStatsDisplay
               ((fst st)\<lparr>directlyLearnedNodes := insert nodeId (directlyLearnedNodes (fst st))\<rparr>)]
       else []))"
  using assms by (simp add: correctMoveRoundTrip_def api_mark_known handleCorrectMove_def Let_def)

lemma trainingSessionId_after:
  "trainingSessionId (fst (fst (snd (correctMoveRoundTrip nodeId st)))) = trainingSessionId (fst st)"
  by (cases "findSession (snd st) (trainingSessionId (fst st))")
     (auto simp: correctMoveRoundTrip_unknown correctMoveRoundTrip_known)


text \<open>
  Claim C1. Marking a node as directly learned is idempotent per session. When
  \<^verbatim>\<open>handleCorrectMove\<close> runs twice for the same node against the session engine, the
  second answer reports \<open>newly_learned = False\<close>, the second run leaves
  \<^verbatim>\<open>appState\<close> (so \<^verbatim>\<open>directlyLearnedNodes\<close> and its size, the displayed learned
  count) as the first run left it, and it does not redraw the statistics. When the
  session exists on the server both answers are successes, and the first reports
  whether the node was new to the session.
\<close>

theorem markDirectlyLearned_twice:
  assumes first: "correctMoveRoundTrip nodeId st = (r1, st1, e1)"
    and second: "correctMoveRoundTrip nodeId st1 = (r2, st2, e2)"
  shows "\<not> newly_learned r2
    \<and> directlyLearnedNodes (fst st2) = directlyLearnedNodes (fst st1)
    \<and> card (directlyLearnedNodes (fst st2)) \<le> card (directlyLearnedNodes (fst st1))
    \<and> fst st2 = fst st1 \<and> e2 = []
    \<and> (findSession (snd st) (trainingSessionId (fst st)) = Some (sid, session) \<longrightarrow>
         mark_success r1 \<and> mark_success r2
         \<and> newly_learned r1 = (nodeId \<notin> directlyLearnedNodeIds session))"
proof (cases "findSession (snd st) (trainingSessionId (fst st))")
  case None
  with first have st1: "st1 = st"
    by (simp add: correctMoveRoundTrip_unknown)
  from None st1 second show ?thesis
    by (auto simp: correctMoveRoundTrip_unknown)
next
  case (Some p)
  obtain sid' session' where p: "p = (sid', session')" by (cases p)
  let ?marked = "session'\<lparr>directlyLearnedNodeIds := insert nodeId (directlyLearnedNodeIds session')\<rparr>"
  from Some p have known: "findSession (snd st) (trainingSessionId (fst st)) = Some (sid', session')"
    by simp
  from first correctMoveRoundTrip_known [OF known, of nodeId]
  have r1: "mark_success r1" "newly_learned r1 = (nodeId \<notin> directlyLearnedNodeIds session')"
    and store1: "snd st1 = (snd st)(sid' := Some ?marked)"
    and sess1: "trainingSessionId (fst st1) = trainingSessionId (fst st)"
    by (auto split: if_splits)
  from known have known1: "findSession (snd st1) (trainingSessionId (fst st1)) = Some (sid', ?marked)"
    unfolding store1 sess1 by (rule findSession_after_mark)
  from second correctMoveRoundTrip_known [OF known1, of nodeId]
  have "\<not> newly_learned r2" "mark_success r2" "fst st2 = fst st1" "e2 = []"
    by auto
  with r1 known show ?thesis by simp
qed

theorem markDirectlyLearned_twice_witness:
  "correctMoveRoundTrip ''n7''
     (initialAppState\<lparr>trainingSessionId := Some ''s1''\<rparr>, (\<lambda>sid. None)(''s1'' := Some newSession))
   = (\<lparr>mark_success = True, newly_learned = True\<rparr>,
      (initialAppState\<lparr>trainingSessionId := Some ''s1'', directlyLearnedNodes := {''n7''}\<rparr>,
       (\<lambda>sid. None)(''s1'' := Some (newSession\<lparr>directlyLearnedNodeIds := {''n7''}\<rparr>))),
      [StatsDisplay 1 0])
   \<and> correctMoveRoundTrip ''n7''
     (initialAppState\<lparr>trainingSessionId := Some ''s1'', directlyLearnedNodes := {''n7''}\<rparr>,
      (\<lambda>sid. None)(''s1'' := Some (newSession\<lparr>directlyLearnedNodeIds := {''n7''}\<rparr>)))
   = (\<lparr>mark_success = True, newly_learned = False\<rparr>,
      (initialAppState\<lparr>trainingSessionId := Some ''s1'', directlyLearnedNodes := {''n7''}\<rparr>,
       (\<lambda>sid. None)(''s1'' := Some (newSession\<lparr>directlyLearnedNodeIds := {''n7''}\<rparr>))),
      [])"
proof -
  let ?st0 = "(initialAppState\<lparr>trainingSessionId := Some ''s1''\<rparr>,
              (\<lambda>sid. None)(''s1'' := Some newSession))"
  let ?st1 = "(initialAppState\<lparr>trainingSessionId := Some ''s1'', directlyLearnedNodes := {''n7''}\<rparr>,
              (\<lambda>sid. None)(''s1'' := Some (newSession\<lparr>directlyLearnedNodeIds := {''n7''}\<rparr>)))"
  have known: "findSession (snd ?st0) (trainingSessionId (fst ?st0)) = Some (''s1'', newSession)"
    by (simp add: findSession_def)
  have first: "correctMoveRoundTrip ''n7'' ?st0
     = (\<lparr>mark_success = True, newly_learned = True\<rparr>, ?st1, [StatsDisplay 1 0])"
    by (simp add: correctMoveRoundTrip_def api_mark_directly_learned_def findSession_def
        markDirectlyLearned_def handleCorrectMove_def newSession_def initialAppState_def
        updateLearningStatsDisplay_def Let_def)
  obtain r2 st2 e2 where second: "correctMoveRoundTrip ''n7'' ?st1 = (r2, st2, e2)"
    by (cases "correctMoveRoundTrip ''n7'' ?st1") auto
  have known1: "findSession (snd ?st1) (trainingSessionId (fst ?st1))
                  = Some (''s1'', newSession\<lparr>directlyLearnedNodeIds := {''n7''}\<rparr>)"
    by (simp add: findSession_def)
  from markDirectlyLearned_twice [OF first second, of "''s1''" newSession] known
  have "\<not> newly_learned r2" "mark_success r2" "fst st2 = fst ?st1" "e2 = []"
    by simp_all
  moreover from second correctMoveRoundTrip_known [OF known1, of "''n7''"]
  have "snd st2 = snd ?st1" by (auto simp: newSession_def)
  ultimately have "(r2, st2, e2) = (\<lparr>mark_success = True, newly_learned = False\<rparr>, ?st1, [])"
    by (cases r2, cases st2) simp
  with first second show ?thesis by simp
qed


lemma api_unmark_known:
  "findSession store sessionId = Some (sid, session) \<Longrightarrow>
   api_unmark_directly_learned store sessionId nodeId
     = (\<lparr>unmark_success = True, was_learned = (nodeId \<in> directlyLearnedNodeIds session)\<rparr>,
        store(sid := Some (session\<lparr>directlyLearnedNodeIds :=
                                   directlyLearnedNodeIds session - {nodeId}\<rparr>)))"
  by (auto simp: api_unmark_directly_learned_def unmarkDirectlyLearned_def)






text \<open>For every input, \<^verbatim>\<open>startTrainingMode\<close> leaves the mistake counter and the
  directly-learned set as they were.\<close>

lemma startTrainingMode_keeps_learning_state:
  "mistakeCount (fst (startTrainingMode playerColor freshSessionId answer app)) = mistakeCount app
   \<and> directlyLearnedNodes (fst (startTrainingMode playerColor freshSessionId answer app))
       = directlyLearnedNodes app"
  by (cases answer) (simp_all add: startTrainingMode_def Let_def)

text \<open>\<^verbatim>\<open>endTrainingMode\<close> does not touch them either, and \<^verbatim>\<open>getLearningStats\<close>
  overwrites the counter with what the server reports.\<close>

lemma endTrainingMode_keeps_learning_state:
  "mistakeCount (endTrainingMode app) = mistakeCount app
   \<and> directlyLearnedNodes (endTrainingMode app) = directlyLearnedNodes app"
  by (simp add: endTrainingMode_def)

lemma getLearningStats_count:
  "mistakeCount (snd (getLearningStats sessionId answer app))
     = (case answer of
          FetchThrows \<Rightarrow> mistakeCount app
        | Response data \<Rightarrow>
            if stats_success data then or_zero (stats_mistake_count data) else mistakeCount app)"
  by (cases answer) (simp_all add: getLearningStats_def)

text \<open>On the server, a recorded mistake increments the session's counter.\<close>

lemma recordMistake_increments:
  "fst (recordMistake session) = Suc (session_mistakeCount session)
   \<and> session_mistakeCount (snd (recordMistake session)) = Suc (session_mistakeCount session)"
  by (simp add: recordMistake_def)


lemma ensure_position:
  "currentPosition (fst (snd (ensureNodeIdForCurrentPosition found app))) = currentPosition app"
  by (cases found) (simp_all add: ensureNodeIdForCurrentPosition_def)


lemma sendMove_never_throws:
  "fst (sendMoveToBackend moveSan found answer app) \<noteq> Thrown"
  by (cases answer; cases found)
     (auto simp: sendMoveToBackend_def ensureNodeIdForCurrentPosition_def
        Let_def split: option.splits prod.splits)














lemma startsWith_self: "startsWith u u"
  by (simp add: startsWith_def)









end
